theory Spec2Isabelle
  imports Main "HOL-Library.Sublist"
begin

section \<open>Values, exceptions and the clock\<close>

text \<open>
  The values stored in user documents and carried as additional token claims.
  Python's \<^verbatim>\<open>None\<close> is \<open>JNull\<close>. A string produced by the password hasher is
  kept symbolic: \<open>JHash salt password\<close> is the bcrypt hash string of \<open>password\<close> under
  \<open>salt\<close>; every other string is a \<open>JStr\<close>.
\<close>

datatype json = JNull | JBool bool | JInt int | JStr string | JHash string string

text \<open>A Python \<^verbatim>\<open>dict\<close> with string keys, in insertion order.\<close>

type_synonym doc = "(string \<times> json) list"

text \<open>Python truthiness of a value (\<^verbatim>\<open>not x\<close> is its negation).\<close>

fun truthy :: "json \<Rightarrow> bool" where
  "truthy JNull = False"
| "truthy (JBool b) = b"
| "truthy (JInt n) = (n \<noteq> 0)"
| "truthy (JStr s) = (s \<noteq> [])"
| "truthy (JHash salt pw) = True"

text \<open>
  \<^verbatim>\<open>fastapi.HTTPException(status_code, detail, headers)\<close>; absent headers are the
  empty list.
\<close>

record http_exception =
  status_code :: nat
  detail :: string
  headers :: "(string \<times> string) list"

text \<open>
  The exceptions the code raises or catches: \<open>JWTError\<close> stands for
  \<^verbatim>\<open>jose.JWTError\<close> and its subclasses, \<open>PyError\<close> for any other Python exception,
  named by a class it belongs to.
\<close>

datatype exn = HTTPException http_exception | JWTError string | PyError string

text \<open>
  Naive datetimes are microseconds since the epoch. \<open>utcnow\<close> is what
  \<^verbatim>\<open>datetime.utcnow()\<close> returns; \<open>utcoffset\<close> is the offset, in seconds, of the
  server's local time zone, which \<^verbatim>\<open>datetime.fromtimestamp\<close> applies.
\<close>

record clock =
  utcnow :: int
  utcoffset :: int

definition fromtimestamp :: "clock \<Rightarrow> int \<Rightarrow> int" where
  "fromtimestamp clk ts = (ts + utcoffset clk) * 1000000"

definition timedelta_minutes :: "int \<Rightarrow> int" where
  "timedelta_minutes m = m * 60 * 1000000"

text \<open>\<^verbatim>\<open>calendar.timegm(d.utctimetuple())\<close>: whole seconds of a naive UTC datetime.\<close>

definition timegm :: "int \<Rightarrow> int" where
  "timegm d = d div 1000000"


section \<open>Tokens and the JOSE library\<close>

text \<open>
  A claim set (\<^verbatim>\<open>Dict[str, Any]\<close>): the registered claims \<^verbatim>\<open>sub\<close>, \<^verbatim>\<open>exp\<close> and
  \<^verbatim>\<open>iat\<close> with the types RFC 7519 gives them (\<open>None\<close> when the key is absent), and
  every other key in \<open>extra\<close>.
\<close>

record claims =
  sub :: "string option"
  exp :: "int option"
  iat :: "int option"
  extra :: doc

text \<open>
  A token string, symbolically: either a compact JWS with its header algorithm, the key
  its signature was made with and its payload, or a string that is no JWS at all.
\<close>

datatype token = JWS string string claims | Malformed string

text \<open>
  The HMAC algorithms, where the signing key is the verification key. They are the only
  ones modelled: any other algorithm name counts as unsupported.
\<close>

definition hmac_algorithms :: "string list" where
  "hmac_algorithms = [''HS256'', ''HS384'', ''HS512'']"

text \<open>
  \<^verbatim>\<open>jose.jwt.encode(claims, key, algorithm)\<close>. The library converts datetime values
  of \<^verbatim>\<open>exp\<close> and \<^verbatim>\<open>iat\<close> to whole seconds; here the caller passes them through
  \<open>timegm\<close>. An unsupported algorithm raises.
\<close>

definition jwt_encode :: "claims \<Rightarrow> string \<Rightarrow> string \<Rightarrow> exn + token" where
  "jwt_encode to_encode key alg =
     (if alg \<in> set hmac_algorithms then Inr (JWS alg key to_encode)
      else Inl (JWTError ''Algorithm not supported''))"

text \<open>
  The validation of the claims that \<^verbatim>\<open>jose.jwt.decode\<close> runs with its default
  options and without audience, issuer, subject or access token, in the library's order:
  a not-before time in the future, an expiry in the past (in whole seconds,
  \<^verbatim>\<open>ExpiredSignatureError\<close>), any audience claim, a JWT ID that is no string and any
  \<^verbatim>\<open>at_hash\<close> claim make it raise, each time a subclass of \<^verbatim>\<open>JWTError\<close>.
  A not-before claim is a JSON integer, as RFC 7519 has it; any other value is refused.
  An entry of \<open>extra\<close> under the name \<^verbatim>\<open>sub\<close>, \<^verbatim>\<open>exp\<close> or \<^verbatim>\<open>iat\<close>, or under
  a name that an earlier entry has, is shadowed: it is not part of the claim set.
\<close>

definition validate_claims :: "clock \<Rightarrow> claims \<Rightarrow> exn + claims" where
  "validate_claims clk payload =
     (if (case map_of (extra payload) ''nbf'' of
                 None \<Rightarrow> False
               | Some (JInt n) \<Rightarrow> timegm (utcnow clk) < n
               | Some v \<Rightarrow> True)
      then Inl (JWTError ''The token is not yet valid (nbf)'')
      else if (case exp payload of None \<Rightarrow> False | Some e \<Rightarrow> e < timegm (utcnow clk))
      then Inl (JWTError ''Signature has expired.'')
      else if map_of (extra payload) ''aud'' \<noteq> None
      then Inl (JWTError ''Invalid audience'')
      else if (case map_of (extra payload) ''jti'' of
                 None \<Rightarrow> False
               | Some (JStr s) \<Rightarrow> False
               | Some (JHash salt pw) \<Rightarrow> False
               | Some v \<Rightarrow> True)
      then Inl (JWTError ''JWT ID must be a string.'')
      else if map_of (extra payload) ''at_hash'' \<noteq> None
      then Inl (JWTError ''No access_token provided to compare against at_hash claim.'')
      else Inr payload)"

text \<open>
  \<^verbatim>\<open>jose.jwt.decode(token, key, algorithms)\<close>: the signature is verified with the
  key under an allowed algorithm, then the claims are validated.
\<close>

definition jwt_decode :: "clock \<Rightarrow> token \<Rightarrow> string \<Rightarrow> string list \<Rightarrow> exn + claims" where
  "jwt_decode clk tok key algorithms =
     (case tok of
        Malformed s \<Rightarrow> Inl (JWTError ''Not enough segments'')
      | JWS alg k payload \<Rightarrow>
          if alg \<notin> set algorithms then Inl (JWTError ''The specified alg value is not allowed'')
          else if alg \<notin> set hmac_algorithms then Inl (JWTError ''Algorithm not supported'')
          else if k \<noteq> key then Inl (JWTError ''Signature verification failed.'')
          else validate_claims clk payload)"

section \<open>JWTHandler\<close>

record JWTHandler =
  secret_key :: string
  algorithm :: string
  access_token_expire_minutes :: int

definition invalid_credentials :: exn where
  "invalid_credentials =
     HTTPException \<lparr>status_code = 401, detail = ''Invalid authentication credentials'',
                    headers = [(''WWW-Authenticate'', ''Bearer'')]\<rparr>"

definition token_expired :: exn where
  "token_expired =
     HTTPException \<lparr>status_code = 401, detail = ''Token expired'',
                    headers = [(''WWW-Authenticate'', ''Bearer'')]\<rparr>"

definition could_not_create :: exn where
  "could_not_create =
     HTTPException \<lparr>status_code = 500, detail = ''Could not create access token'',
                    headers = []\<rparr>"

definition could_not_refresh :: exn where
  "could_not_refresh =
     HTTPException \<lparr>status_code = 401, detail = ''Could not refresh token'', headers = []\<rparr>"

text \<open>
  \<^verbatim>\<open>create_access_token(data, expires_delta)\<close>. A timedelta is a number of
  microseconds; \<^verbatim>\<open>timedelta(0)\<close> is falsy, so the default applies to it too.
\<close>

definition create_access_token ::
  "JWTHandler \<Rightarrow> clock \<Rightarrow> claims \<Rightarrow> int option \<Rightarrow> exn + token" where
  "create_access_token h clk data expires_delta =
     (let expire = (case expires_delta of
                      Some d \<Rightarrow> if d \<noteq> 0 then utcnow clk + d
                                else utcnow clk + timedelta_minutes (access_token_expire_minutes h)
                    | None \<Rightarrow> utcnow clk + timedelta_minutes (access_token_expire_minutes h));
          to_encode = data\<lparr>exp := Some (timegm expire), iat := Some (timegm (utcnow clk))\<rparr>
      in case jwt_encode to_encode (secret_key h) (algorithm h) of
           Inl e \<Rightarrow> Inl could_not_create
         | Inr encoded_jwt \<Rightarrow> Inr encoded_jwt)"

text \<open>
  \<^verbatim>\<open>verify_token(token)\<close>. Only \<^verbatim>\<open>JWTError\<close> is caught; the HTTP exceptions
  raised inside the \<^verbatim>\<open>try\<close> block and any other exception propagate.
\<close>

definition verify_token :: "JWTHandler \<Rightarrow> clock \<Rightarrow> token \<Rightarrow> exn + claims" where
  "verify_token h clk tok =
     (case jwt_decode clk tok (secret_key h) [algorithm h] of
        Inl (JWTError e) \<Rightarrow> Inl invalid_credentials
      | Inl e \<Rightarrow> Inl e
      | Inr payload \<Rightarrow>
          (case sub payload of
             None \<Rightarrow> Inl invalid_credentials
           | Some username \<Rightarrow>
               (case exp payload of
                  None \<Rightarrow> Inl token_expired
                | Some e \<Rightarrow>
                    if utcnow clk > fromtimestamp clk e then Inl token_expired
                    else Inr payload)))"


section \<open>Password hashing and the user directory\<close>

text \<open>
  A passlib \<^verbatim>\<open>CryptContext\<close>, seen through its method
  \<^verbatim>\<open>verify(secret, hash)\<close>. The module's \<^verbatim>\<open>pwd_context\<close> is a parameter of
  the functions that use it.
\<close>

type_synonym CryptContext = "string \<Rightarrow> json \<Rightarrow> exn + bool"

text \<open>
  A string holds the UTF-8 bytes of a Python \<^verbatim>\<open>str\<close>; \<^verbatim>\<open>len\<close> counts its
  characters, which are the bytes that do not continue a character.
\<close>

definition str_len :: "string \<Rightarrow> nat" where
  "str_len s = length (filter (\<lambda>c. \<not> (128 \<le> (of_char c :: nat) \<and> (of_char c :: nat) < 192)) s)"

text \<open>
  The context that the module builds, \<^verbatim>\<open>CryptContext(schemes=["bcrypt"])\<close>. A null
  hash gives false. For a bcrypt hash, a secret of more than 4096 characters or with a NUL
  byte raises (\<^verbatim>\<open>PasswordSizeError\<close>, \<^verbatim>\<open>PasswordValueError\<close>, both a
  \<^verbatim>\<open>ValueError\<close>); otherwise bcrypt compares the first 72 bytes. A string that is no
  hash of the scheme raises (\<^verbatim>\<open>UnknownHashError\<close>, a \<^verbatim>\<open>ValueError\<close>), a value
  that is neither null nor a string raises \<^verbatim>\<open>TypeError\<close>.
\<close>

fun bcrypt_context :: CryptContext where
  "bcrypt_context secret JNull = Inr False"
| "bcrypt_context secret (JHash salt pw) =
     (if 4096 < str_len secret then Inl (PyError ''ValueError'')
      else if CHR 0x00 \<in> set secret then Inl (PyError ''ValueError'')
      else Inr (take 72 secret = take 72 pw))"
| "bcrypt_context secret (JStr s) = Inl (PyError ''ValueError'')"
| "bcrypt_context secret v = Inl (PyError ''TypeError'')"

definition verify_password :: "CryptContext \<Rightarrow> string \<Rightarrow> json \<Rightarrow> exn + bool" where
  "verify_password pwd_context plain_password hashed_password =
     pwd_context plain_password hashed_password"

text \<open>\<^verbatim>\<open>d[k]\<close> and \<^verbatim>\<open>d.get(k, default)\<close> on a dict.\<close>

definition getitem :: "doc \<Rightarrow> string \<Rightarrow> exn + json" where
  "getitem d k = (case map_of d k of None \<Rightarrow> Inl (PyError ''KeyError'') | Some v \<Rightarrow> Inr v)"

definition dict_get :: "doc \<Rightarrow> string \<Rightarrow> json \<Rightarrow> json" where
  "dict_get d k dflt = (case map_of d k of None \<Rightarrow> dflt | Some v \<Rightarrow> v)"

text \<open>
  The users collection: its documents, or a store that cannot be reached, where every
  operation raises.
\<close>

datatype database = Database "doc list" | Unreachable

text \<open>\<^verbatim>\<open>collection.find_one({"username": username})\<close>.\<close>

definition get_user_by_username :: "database \<Rightarrow> string \<Rightarrow> exn + doc option" where
  "get_user_by_username db username =
     (case db of
        Unreachable \<Rightarrow> Inl (PyError ''ServerSelectionTimeoutError'')
      | Database users \<Rightarrow>
          Inr (find (\<lambda>d. map_of d ''username'' = Some (JStr username)) users))"

text \<open>\<^verbatim>\<open>collection.find({}, {"password": 0})\<close>: the projection drops the field.\<close>

definition get_all_users :: "database \<Rightarrow> exn + doc list" where
  "get_all_users db =
     (case db of
        Unreachable \<Rightarrow> Inl (PyError ''ServerSelectionTimeoutError'')
      | Database users \<Rightarrow> Inr (map (filter (\<lambda>(k, v). k \<noteq> ''password'')) users))"

section \<open>Authentication helpers and dependencies\<close>

text \<open>
  \<^verbatim>\<open>authenticate_user(username, password)\<close> returns the user document or
  \<^verbatim>\<open>False\<close>, here \<open>None\<close>. Every exception is caught.
\<close>

definition authenticate_user ::
  "CryptContext \<Rightarrow> database \<Rightarrow> string \<Rightarrow> string \<Rightarrow> doc option" where
  "authenticate_user pwd_context db username password =
     (case get_user_by_username db username of
        Inl e \<Rightarrow> None
      | Inr None \<Rightarrow> None
      | Inr (Some user) \<Rightarrow>
          if user = [] then None
          else (case getitem user ''password'' of
                  Inl e \<Rightarrow> None
                | Inr hashed \<Rightarrow>
                    (case verify_password pwd_context password hashed of
                       Inl e \<Rightarrow> None
                     | Inr ok \<Rightarrow> if \<not> ok then None else Some user)))"

definition credentials_exception :: exn where
  "credentials_exception =
     HTTPException \<lparr>status_code = 401, detail = ''Could not validate credentials'',
                    headers = [(''WWW-Authenticate'', ''Bearer'')]\<rparr>"

text \<open>
  The handler pair \<^verbatim>\<open>except HTTPException: raise\<close>,
  \<^verbatim>\<open>except Exception: raise fallback\<close>.
\<close>

definition reraise_http :: "exn \<Rightarrow> exn \<Rightarrow> exn" where
  "reraise_http fallback e = (case e of HTTPException x \<Rightarrow> e | _ \<Rightarrow> fallback)"

definition get_current_user :: "JWTHandler \<Rightarrow> clock \<Rightarrow> database \<Rightarrow> token \<Rightarrow> exn + doc" where
  "get_current_user h clk db tok =
     (case verify_token h clk tok of
        Inl e \<Rightarrow> Inl (reraise_http credentials_exception e)
      | Inr payload \<Rightarrow>
          (case sub payload of
             None \<Rightarrow> Inl credentials_exception
           | Some username \<Rightarrow>
               (case get_user_by_username db username of
                  Inl e \<Rightarrow> Inl (reraise_http credentials_exception e)
                | Inr None \<Rightarrow> Inl credentials_exception
                | Inr (Some user) \<Rightarrow> Inr (filter (\<lambda>(k, v). k \<noteq> ''password'') user))))"

definition forbidden :: exn where
  "forbidden =
     HTTPException \<lparr>status_code = 403,
       detail = ''Not enough permissions. Admin access required.'', headers = []\<rparr>"

definition get_current_admin_user :: "doc \<Rightarrow> exn + doc" where
  "get_current_admin_user current_user =
     (if dict_get current_user ''username'' JNull \<noteq> JStr ''admin''
         \<and> \<not> truthy (dict_get current_user ''is_admin'' (JBool False))
      then Inl forbidden
      else Inr current_user)"

text \<open>
  A route declared with \<^verbatim>\<open>Depends(get_current_admin_user)\<close>: the framework
  first resolves \<^verbatim>\<open>Depends(get_current_user)\<close> from the bearer token and gives its
  result to \<open>get_current_admin_user\<close>.
\<close>

definition depends_get_current_admin_user ::
  "JWTHandler \<Rightarrow> clock \<Rightarrow> database \<Rightarrow> token \<Rightarrow> exn + doc" where
  "depends_get_current_admin_user h clk db tok =
     (case get_current_user h clk db tok of
        Inl e \<Rightarrow> Inl e
      | Inr current_user \<Rightarrow> get_current_admin_user current_user)"

section \<open>The JWT middleware\<close>

record request =
  path :: string
  authorization :: "string option"
  state_user :: "doc option"
  state_token_payload :: "claims option"

record response =
  content :: string
  resp_status_code :: nat
  media_type :: string
  resp_headers :: "(string \<times> string) list"

text \<open>
  What \<open>dispatch\<close> does with a request: hand it, possibly with identity attached to its
  state, to the next handler (\<^verbatim>\<open>call_next(request)\<close>), or answer it itself.
\<close>

datatype outcome = CallNext request | Respond response

record JWTMiddleware =
  protected_paths :: "string list"
  excluded_paths :: "string list"

text \<open>The constructor: \<^verbatim>\<open>protected_paths or [...]\<close> replaces an empty list too.\<close>

definition JWTMiddleware_init :: "string list option \<Rightarrow> JWTMiddleware" where
  "JWTMiddleware_init protected =
     \<lparr>protected_paths =
        (case protected of
           Some (p # ps) \<Rightarrow> p # ps
         | _ \<Rightarrow> [''/users'', ''/admin'', ''/protected'', ''/chat'']),
      excluded_paths =
        [''/auth/token'', ''/auth/register'', ''/docs'', ''/redoc'', ''/openapi.json'',
         ''/health'']\<rparr>"

text \<open>\<^verbatim>\<open>s.split(sep)\<close> for a one-character separator.\<close>

fun str_split :: "char \<Rightarrow> string \<Rightarrow> string list" where
  "str_split sep [] = [[]]"
| "str_split sep (c # cs) =
     (if c = sep then [] # str_split sep cs
      else (case str_split sep cs of
              w # ws \<Rightarrow> (c # w) # ws
            | [] \<Rightarrow> [[c]]))"

definition json_detail :: "string \<Rightarrow> string" where
  "json_detail d = ''{'' @ [CHR 0x22] @ ''detail'' @ [CHR 0x22] @ '':'' @ [CHR 0x22] @ d
                   @ [CHR 0x22] @ ''}''"

definition missing_header :: response where
  "missing_header =
     \<lparr>content = json_detail ''Missing or invalid authorization header'',
      resp_status_code = 401, media_type = ''application/json'',
      resp_headers = [(''WWW-Authenticate'', ''Bearer'')]\<rparr>"

definition authentication_failed :: response where
  "authentication_failed =
     \<lparr>content = json_detail ''Authentication failed'',
      resp_status_code = 401, media_type = ''application/json'',
      resp_headers = [(''WWW-Authenticate'', ''Bearer'')]\<rparr>"

text \<open>
  \<^verbatim>\<open>JWTMiddleware.dispatch(request, call_next)\<close>. Its first argument stands for
  \<^verbatim>\<open>jwt_handler.verify_token\<close> of the global handler, applied to the token text
  taken from the header. The indexing \<^verbatim>\<open>split(" ")[1]\<close> is outside the
  \<^verbatim>\<open>try\<close> block.
\<close>

definition dispatch ::
  "(string \<Rightarrow> exn + claims) \<Rightarrow> JWTMiddleware \<Rightarrow> request \<Rightarrow> exn + outcome" where
  "dispatch verify mw req =
     (if list_ex (\<lambda>excluded. prefix excluded (path req)) (excluded_paths mw)
      then Inr (CallNext req)
      else if \<not> list_ex (\<lambda>protected. prefix protected (path req)) (protected_paths mw)
      then Inr (CallNext req)
      else (case authorization req of
              None \<Rightarrow> Inr (Respond missing_header)
            | Some auth \<Rightarrow>
                if auth = [] \<or> \<not> prefix ''Bearer '' auth then Inr (Respond missing_header)
                else (case str_split CHR '' '' auth of
                        w # tok # ws \<Rightarrow>
                          (case verify tok of
                             Inr payload \<Rightarrow>
                               Inr (CallNext (req\<lparr>
                                 state_user := Some [(''username'',
                                   (case sub payload of None \<Rightarrow> JNull | Some u \<Rightarrow> JStr u))],
                                 state_token_payload := Some payload\<rparr>))
                           | Inl (HTTPException e) \<Rightarrow>
                               Inr (Respond \<lparr>content = json_detail (detail e),
                                      resp_status_code = status_code e,
                                      media_type = ''application/json'',
                                      resp_headers = headers e\<rparr>)
                           | Inl e \<Rightarrow> Inr (Respond authentication_failed))
                      | _ \<Rightarrow> Inl (PyError ''IndexError''))))"

section \<open>Routers\<close>

record Token =
  access_token :: token
  token_type :: string
  expires_in :: int

definition incorrect_login :: exn where
  "incorrect_login =
     HTTPException \<lparr>status_code = 401, detail = ''Incorrect username or password'',
                    headers = [(''WWW-Authenticate'', ''Bearer'')]\<rparr>"

definition login_failed :: exn where
  "login_failed = HTTPException \<lparr>status_code = 500, detail = ''Login failed'', headers = []\<rparr>"

text \<open>
  \<^verbatim>\<open>POST /auth/token\<close>. The document that \<open>authenticate_user\<close> returns was found by
  its \<^verbatim>\<open>username\<close>, a string; a document without it would raise inside the
  \<^verbatim>\<open>try\<close> block and end in the last handler.
\<close>

definition login ::
  "CryptContext \<Rightarrow> JWTHandler \<Rightarrow> clock \<Rightarrow> database \<Rightarrow> string \<Rightarrow> string \<Rightarrow> exn + Token" where
  "login pwd_context h clk db username password =
     (case authenticate_user pwd_context db username password of
        None \<Rightarrow> Inl incorrect_login
      | Some user \<Rightarrow>
          (case getitem user ''username'' of
             Inr (JStr u) \<Rightarrow>
               (case create_access_token h clk
                       \<lparr>sub = Some u, exp = None, iat = None, extra = []\<rparr>
                       (Some (timedelta_minutes (access_token_expire_minutes h))) of
                  Inl e \<Rightarrow> Inl (reraise_http login_failed e)
                | Inr tok \<Rightarrow>
                    Inr \<lparr>access_token = tok, token_type = ''bearer'',
                         expires_in = access_token_expire_minutes h * 60\<rparr>)
           | _ \<Rightarrow> Inl login_failed))"

text \<open>
  The response model \<^verbatim>\<open>UserResponse\<close>, with the fields of its schema and nothing
  else. Its constructor, which validates and converts the keyword arguments and raises
  when they do not fit, is a parameter of the route below.
\<close>

record UserResponse =
  ur_username :: string
  ur_created_at :: "int option"
  ur_last_login :: "int option"
  ur_is_active :: bool
  ur_is_admin :: bool

text \<open>The JSON object the framework sends for a \<open>UserResponse\<close>.\<close>

definition model_dump :: "UserResponse \<Rightarrow> doc" where
  "model_dump r =
     [(''username'', JStr (ur_username r)),
      (''created_at'', (case ur_created_at r of None \<Rightarrow> JNull | Some t \<Rightarrow> JInt t)),
      (''last_login'', (case ur_last_login r of None \<Rightarrow> JNull | Some t \<Rightarrow> JInt t)),
      (''is_active'', JBool (ur_is_active r)),
      (''is_admin'', JBool (ur_is_admin r))]"

definition user_not_found :: "string \<Rightarrow> exn" where
  "user_not_found username =
     HTTPException \<lparr>status_code = 404,
       detail = ''User '' @ [CHR 0x27] @ username @ [CHR 0x27] @ '' not found'', headers = []\<rparr>"

definition failed_to_get_user :: exn where
  "failed_to_get_user =
     HTTPException \<lparr>status_code = 500, detail = ''Failed to get user'', headers = []\<rparr>"

text \<open>
  \<^verbatim>\<open>GET /users/{username}\<close>, after the admin dependency has been resolved.
\<close>

definition get_user_by_username_endpoint ::
  "(doc \<Rightarrow> exn + UserResponse) \<Rightarrow> database \<Rightarrow> string \<Rightarrow> exn + UserResponse" where
  "get_user_by_username_endpoint UserResponse_init db username =
     (case get_user_by_username db username of
        Inl e \<Rightarrow> Inl (reraise_http failed_to_get_user e)
      | Inr None \<Rightarrow> Inl (user_not_found username)
      | Inr (Some user) \<Rightarrow>
          if user = [] then Inl (user_not_found username)
          else (let user_safe = filter (\<lambda>(k, v). k \<noteq> ''password'') user
                in case UserResponse_init user_safe of
                     Inl e \<Rightarrow> Inl (reraise_http failed_to_get_user e)
                   | Inr r \<Rightarrow> Inr r))"

section \<open>Auxiliary facts\<close>

lemma timegm_bounds: "timegm d * 1000000 \<le> d \<and> d < (timegm d + 1) * 1000000"
proof -
  define q where "q = d div 1000000"
  define r where "r = d mod 1000000"
  have "0 \<le> r" and "r < 1000000" and "d = q * 1000000 + r"
    by (simp_all add: q_def r_def)
  then have "q * 1000000 \<le> d \<and> d < (q + 1) * 1000000" by (simp add: algebra_simps)
  then show ?thesis by (simp add: timegm_def q_def)
qed

lemma exn_distinct:
  "invalid_credentials \<noteq> token_expired"
  "invalid_credentials \<noteq> could_not_refresh"
  "token_expired \<noteq> could_not_refresh"
  by (simp_all add: invalid_credentials_def token_expired_def could_not_refresh_def)

lemma validate_claims_Inl: "validate_claims clk p = Inl e \<Longrightarrow> \<exists>m. e = JWTError m"
  by (auto simp: validate_claims_def split: if_splits)

lemma validate_claims_Inr:
  "validate_claims clk p = Inr q \<Longrightarrow> q = p \<and> (\<forall>e. exp p = Some e \<longrightarrow> timegm (utcnow clk) \<le> e)"
  by (auto simp: validate_claims_def split: if_splits)

lemma validate_claims_expired:
  "exp p = Some e \<Longrightarrow> e < timegm (utcnow clk) \<Longrightarrow> \<exists>m. validate_claims clk p = Inl (JWTError m)"
  by (cases "validate_claims clk p")
     (auto dest: validate_claims_Inl validate_claims_Inr)

lemma validate_claims_plain:
  "extra p = [] \<Longrightarrow> exp p = Some e \<Longrightarrow> timegm (utcnow clk) \<le> e \<Longrightarrow>
   validate_claims clk p = Inr p"
  by (simp add: validate_claims_def)

lemma jwt_decode_Inl: "jwt_decode clk tok key algs = Inl e \<Longrightarrow> \<exists>m. e = JWTError m"
  by (cases tok) (auto simp: jwt_decode_def split: if_splits dest: validate_claims_Inl)

lemma jwt_decode_Inr:
  "jwt_decode clk tok key algs = Inr p \<Longrightarrow>
   \<exists>alg. tok = JWS alg key p \<and> alg \<in> set algs \<and> alg \<in> set hmac_algorithms"
  by (cases tok) (auto simp: jwt_decode_def split: if_splits dest: validate_claims_Inr)

lemma jwt_decode_plain:
  assumes "algorithm h \<in> set hmac_algorithms" and "extra payload = []"
    and "exp payload = Some e" and "timegm (utcnow clk) \<le> e"
  shows "jwt_decode clk (JWS (algorithm h) (secret_key h) payload) (secret_key h) [algorithm h]
         = Inr payload"
  using assms by (simp add: jwt_decode_def validate_claims_plain)

lemma verify_token_Inl:
  "verify_token h clk tok = Inl e \<Longrightarrow> e = invalid_credentials \<or> e = token_expired"
  unfolding verify_token_def
  by (auto split: sum.splits exn.splits option.splits if_splits dest: jwt_decode_Inl)

lemma verify_token_Inr:
  assumes "verify_token h clk tok = Inr p"
  shows "tok = JWS (algorithm h) (secret_key h) p \<and> algorithm h \<in> set hmac_algorithms
         \<and> (\<exists>u. sub p = Some u)"
proof -
  from assms have d: "jwt_decode clk tok (secret_key h) [algorithm h] = Inr p"
    unfolding verify_token_def
    by (auto split: sum.splits exn.splits option.splits if_splits)
  from assms have s: "\<exists>u. sub p = Some u"
    unfolding verify_token_def
    by (auto split: sum.splits exn.splits option.splits if_splits)
  from jwt_decode_Inr [OF d] s show ?thesis by auto
qed

text \<open>
  What \<open>verify_token\<close> does with a payload that the library has accepted.
\<close>

lemma verify_token_decoded:
  assumes "jwt_decode clk tok (secret_key h) [algorithm h] = Inr payload"
  shows "verify_token h clk tok =
           (case sub payload of
              None \<Rightarrow> Inl invalid_credentials
            | Some username \<Rightarrow>
                (case exp payload of
                   None \<Rightarrow> Inl token_expired
                 | Some e \<Rightarrow>
                     if utcnow clk > fromtimestamp clk e then Inl token_expired
                     else Inr payload))"
  using assms by (simp add: verify_token_def)

lemma verify_token_valid:
  assumes "algorithm h \<in> set hmac_algorithms" and "extra payload = []"
    and "sub payload = Some username"
    and "exp payload = Some e" and "timegm (utcnow clk) \<le> e"
    and "utcnow clk \<le> fromtimestamp clk e"
  shows "verify_token h clk (JWS (algorithm h) (secret_key h) payload) = Inr payload"
  using assms by (simp add: verify_token_decoded [OF jwt_decode_plain])

lemma create_access_token_default:
  "algorithm h \<in> set hmac_algorithms \<Longrightarrow>
   create_access_token h clk data None =
     Inr (JWS (algorithm h) (secret_key h)
            (data\<lparr>exp := Some (timegm (utcnow clk) + access_token_expire_minutes h * 60),
                   iat := Some (timegm (utcnow clk))\<rparr>))"
  by (simp add: create_access_token_def jwt_encode_def timegm_def timedelta_minutes_def Let_def)

lemma str_len_le: "str_len s \<le> length s"
  by (simp add: str_len_def)

lemma bcrypt_context_short:
  "length secret \<le> 4096 \<Longrightarrow> CHR 0x00 \<notin> set secret \<Longrightarrow>
   bcrypt_context secret (JHash salt pw) = Inr (take 72 secret = take 72 pw)"
  using str_len_le [of secret] by simp

lemma bcrypt_context_nul:
  "length secret \<le> 4096 \<Longrightarrow> CHR 0x00 \<in> set secret \<Longrightarrow>
   bcrypt_context secret (JHash salt pw) = Inl (PyError ''ValueError'')"
  using str_len_le [of secret] by simp

lemma map_of_filter_other:
  "k \<noteq> ''password'' \<Longrightarrow> map_of (filter (\<lambda>(k, v). k \<noteq> ''password'') d) k = map_of d k"
  by (induction d) auto

lemma get_user_by_username_found:
  "get_user_by_username db name = Inr (Some user) \<Longrightarrow>
   map_of user ''username'' = Some (JStr name)"
  by (auto simp: get_user_by_username_def split: database.splits dest: find_Some_iff [THEN iffD1])

text \<open>
  Issue followed by verification at the same instant succeeds whenever the time to live is
  not negative and the local time zone is less than the time to live behind UTC.
\<close>

lemma issue_then_verify_subject:
  assumes "algorithm h \<in> set hmac_algorithms"
    and "0 \<le> access_token_expire_minutes h"
    and "0 < access_token_expire_minutes h * 60 + utcoffset clk"
  shows "\<exists>t p. create_access_token h clk \<lparr>sub = Some u, exp = None, iat = None, extra = []\<rparr> None = Inr t
           \<and> verify_token h clk t = Inr p \<and> sub p = Some u"
proof -
  let ?s = "timegm (utcnow clk)"
  let ?e = "?s + access_token_expire_minutes h * 60"
  have "utcnow clk < (?s + 1) * 1000000" using timegm_bounds by blast
  moreover have "(?s + 1) * 1000000 \<le> (?e + utcoffset clk) * 1000000"
    using assms(3) by simp
  ultimately have "utcnow clk \<le> fromtimestamp clk ?e"
    unfolding fromtimestamp_def by linarith
  then show ?thesis
    using assms(1,2)
    by (simp add: create_access_token_default verify_token_valid [where e = ?e])
qed

text \<open>
  The explicit time to live that \<open>login\<close> passes is the default one.
\<close>

lemma create_access_token_login_delta:
  "create_access_token h clk data (Some (timedelta_minutes (access_token_expire_minutes h)))
   = create_access_token h clk data None"
  by (simp add: create_access_token_def)

text \<open>
  The expiry check of \<open>verify_token\<close> itself is reached only by a token that has passed
  the library's validation: within the second of its \<^verbatim>\<open>exp\<close>, or later in a time
  zone behind UTC.
\<close>

lemma verify_token_own_expiry_check:
  assumes "jwt_decode clk tok (secret_key h) [algorithm h] = Inr payload"
    and "sub payload = Some username"
    and "exp payload = Some e"
    and "utcnow clk > fromtimestamp clk e"
  shows "verify_token h clk tok = Inl token_expired"
  using assms by (simp add: verify_token_decoded)

section \<open>Token Service\<close>

text \<open>
  C1. The spec has a token verified after its expiry fail with the expired-token error,
  distinct from the invalid-token error, for any clock strictly past expiry. In the code
  the library's own expiry validation raises first, as a \<^verbatim>\<open>JWTError\<close>, and the
  handler of \<open>verify_token\<close> turns it into the invalid-credentials error: once the clock
  is a whole second past \<^verbatim>\<open>exp\<close>, every token gets the invalid-credentials error
  and never the expired one, whatever its signature and whatever the time zone.
\<close>

theorem verify_token_expired_reports_invalid:
  assumes "exp payload = Some e" and "e < timegm (utcnow clk)"
  shows "verify_token h clk (JWS alg k payload) = Inl invalid_credentials
         \<and> verify_token h clk (JWS alg k payload) \<noteq> Inl token_expired"
proof -
  from validate_claims_expired [OF assms]
  obtain m where "validate_claims clk payload = Inl (JWTError m)" by blast
  then have "\<exists>m. jwt_decode clk (JWS alg k payload) (secret_key h) [algorithm h]
               = Inl (JWTError m)"
    by (simp add: jwt_decode_def)
  then have "verify_token h clk (JWS alg k payload) = Inl invalid_credentials"
    by (auto simp: verify_token_def)
  then show ?thesis by (simp add: exn_distinct)
qed

theorem verify_token_expired_reports_invalid_witness:
  "verify_token
     \<lparr>secret_key = ''s3cret'', algorithm = ''HS256'', access_token_expire_minutes = 30\<rparr>
     \<lparr>utcnow = 2000000000, utcoffset = 0\<rparr>
     (JWS ''HS256'' ''s3cret''
        \<lparr>sub = Some ''alice'', exp = Some 1000, iat = Some 0, extra = []\<rparr>)
   = Inl invalid_credentials
   \<and> verify_token
     \<lparr>secret_key = ''s3cret'', algorithm = ''HS256'', access_token_expire_minutes = 30\<rparr>
     \<lparr>utcnow = 2000000000, utcoffset = 0\<rparr>
     (JWS ''HS256'' ''s3cret''
        \<lparr>sub = Some ''alice'', exp = Some 1000, iat = Some 0, extra = []\<rparr>)
   \<noteq> Inl token_expired"
proof -
  have a: "exp \<lparr>sub = Some ''alice'', exp = Some 1000, iat = Some 0, extra = []\<rparr> = Some 1000"
    by simp
  have b: "1000 < timegm (utcnow \<lparr>utcnow = 2000000000, utcoffset = 0\<rparr>)"
    by (simp add: timegm_def)
  show ?thesis by (rule verify_token_expired_reports_invalid [OF a b])
qed

text \<open>
  C2. The spec has issue followed by an immediate verify return the subject. The expiry
  check of \<open>verify_token\<close> compares the UTC clock with \<^verbatim>\<open>datetime.fromtimestamp(exp)\<close>,
  a local time: on a server whose time zone is further behind UTC than the time to live,
  a token just issued is rejected as expired.
\<close>

theorem issue_then_verify_behind_utc:
  assumes "algorithm h \<in> set hmac_algorithms"
    and "0 \<le> access_token_expire_minutes h"
    and "access_token_expire_minutes h * 60 + utcoffset clk < 0"
  shows "create_access_token h clk \<lparr>sub = Some u, exp = None, iat = None, extra = []\<rparr> None
           = Inr (JWS (algorithm h) (secret_key h)
                    \<lparr>sub = Some u,
                     exp = Some (timegm (utcnow clk) + access_token_expire_minutes h * 60),
                     iat = Some (timegm (utcnow clk)), extra = []\<rparr>)
         \<and> verify_token h clk
             (JWS (algorithm h) (secret_key h)
                \<lparr>sub = Some u,
                 exp = Some (timegm (utcnow clk) + access_token_expire_minutes h * 60),
                 iat = Some (timegm (utcnow clk)), extra = []\<rparr>)
           = Inl token_expired"
proof -
  let ?s = "timegm (utcnow clk)"
  let ?e = "?s + access_token_expire_minutes h * 60"
  let ?p = "\<lparr>sub = Some u, exp = Some ?e, iat = Some ?s, extra = []\<rparr>"
  have "?s * 1000000 \<le> utcnow clk" using timegm_bounds by blast
  then have x: "utcnow clk > fromtimestamp clk ?e"
    using assms(3) unfolding fromtimestamp_def by (simp add: algebra_simps)
  have d: "jwt_decode clk (JWS (algorithm h) (secret_key h) ?p) (secret_key h) [algorithm h]
           = Inr ?p"
    using assms(1,2) by (intro jwt_decode_plain [where e = ?e]) simp_all
  have "verify_token h clk (JWS (algorithm h) (secret_key h) ?p) = Inl token_expired"
    using x by (intro verify_token_own_expiry_check [OF d, where e = ?e]) simp_all
  then show ?thesis
    using assms(1) by (simp add: create_access_token_default)
qed

theorem issue_then_verify_behind_utc_witness:
  "create_access_token
     \<lparr>secret_key = ''s3cret'', algorithm = ''HS256'', access_token_expire_minutes = 30\<rparr>
     \<lparr>utcnow = 1000500000, utcoffset = - 18000\<rparr>
     \<lparr>sub = Some ''alice'', exp = None, iat = None, extra = []\<rparr> None
   = Inr (JWS ''HS256'' ''s3cret''
            \<lparr>sub = Some ''alice'', exp = Some 2800, iat = Some 1000, extra = []\<rparr>)
   \<and> verify_token
     \<lparr>secret_key = ''s3cret'', algorithm = ''HS256'', access_token_expire_minutes = 30\<rparr>
     \<lparr>utcnow = 1000500000, utcoffset = - 18000\<rparr>
     (JWS ''HS256'' ''s3cret''
        \<lparr>sub = Some ''alice'', exp = Some 2800, iat = Some 1000, extra = []\<rparr>)
   = Inl token_expired"
proof -
  let ?h = "\<lparr>secret_key = ''s3cret'', algorithm = ''HS256'', access_token_expire_minutes = 30\<rparr>"
  let ?clk = "\<lparr>utcnow = 1000500000, utcoffset = - 18000\<rparr>"
  have 1: "algorithm ?h \<in> set hmac_algorithms" by (simp add: hmac_algorithms_def)
  have 2: "0 \<le> access_token_expire_minutes ?h" by simp
  have 3: "access_token_expire_minutes ?h * 60 + utcoffset ?clk < 0" by simp
  from issue_then_verify_behind_utc [OF 1 2 3, of "''alice''"]
  show ?thesis by (simp add: timegm_def)
qed







section \<open>Authentication Gate\<close>

text \<open>
  C3. The gate looks at the excluded prefixes first: a request whose path starts with an
  excluded prefix is handed to the next handler unchanged, whatever the protected
  prefixes, the \<^verbatim>\<open>Authorization\<close> header and the verifier are, so no token check
  bears on it and no identity is attached. A request whose path starts with neither an
  excluded nor a protected prefix is handed on unchanged as well.
\<close>

theorem dispatch_excluded_first:
  "(list_ex (\<lambda>excluded. prefix excluded (path req)) (excluded_paths mw) \<longrightarrow>
      dispatch verify mw req = Inr (CallNext req))
   \<and> (\<not> list_ex (\<lambda>excluded. prefix excluded (path req)) (excluded_paths mw)
       \<and> \<not> list_ex (\<lambda>protected. prefix protected (path req)) (protected_paths mw) \<longrightarrow>
      dispatch verify mw req = Inr (CallNext req))"
  by (simp add: dispatch_def)

theorem dispatch_excluded_first_witness:
  "list_ex (\<lambda>protected. prefix protected ''/auth/token'')
     (protected_paths (JWTMiddleware_init (Some [''/auth'', ''/users''])))
   \<and> dispatch (\<lambda>tok. Inl invalid_credentials) (JWTMiddleware_init (Some [''/auth'', ''/users'']))
       \<lparr>path = ''/auth/token'', authorization = None, state_user = None,
        state_token_payload = None\<rparr>
     = Inr (CallNext \<lparr>path = ''/auth/token'', authorization = None, state_user = None,
                      state_token_payload = None\<rparr>)
   \<and> dispatch (\<lambda>tok. Inl invalid_credentials) (JWTMiddleware_init (Some [''/auth'', ''/users'']))
       \<lparr>path = ''/metrics'', authorization = None, state_user = None,
        state_token_payload = None\<rparr>
     = Inr (CallNext \<lparr>path = ''/metrics'', authorization = None, state_user = None,
                      state_token_payload = None\<rparr>)"
proof -
  let ?mw = "JWTMiddleware_init (Some [''/auth'', ''/users''])"
  let ?r1 = "\<lparr>path = ''/auth/token'', authorization = None, state_user = None,
              state_token_payload = None\<rparr>"
  let ?r2 = "\<lparr>path = ''/metrics'', authorization = None, state_user = None,
              state_token_payload = None\<rparr>"
  have p: "list_ex (\<lambda>protected. prefix protected ''/auth/token'') (protected_paths ?mw)"
    by (simp add: JWTMiddleware_init_def)
  have e1: "list_ex (\<lambda>excluded. prefix excluded (path ?r1)) (excluded_paths ?mw)"
    by (simp add: JWTMiddleware_init_def)
  have e2: "\<not> list_ex (\<lambda>excluded. prefix excluded (path ?r2)) (excluded_paths ?mw)
            \<and> \<not> list_ex (\<lambda>protected. prefix protected (path ?r2)) (protected_paths ?mw)"
    by (simp add: JWTMiddleware_init_def)
  from dispatch_excluded_first [of ?r1 ?mw "\<lambda>tok. Inl invalid_credentials"] e1
  have "dispatch (\<lambda>tok. Inl invalid_credentials) ?mw ?r1 = Inr (CallNext ?r1)" by blast
  moreover from dispatch_excluded_first [of ?r2 ?mw "\<lambda>tok. Inl invalid_credentials"] e2
  have "dispatch (\<lambda>tok. Inl invalid_credentials) ?mw ?r2 = Inr (CallNext ?r2)" by blast
  ultimately show ?thesis using p by blast
qed

section \<open>Access Policy and identity extraction\<close>

text \<open>
  C6, as amended. \<open>get_current_admin_user\<close> lets a user document through if and only if
  its username is \<^verbatim>\<open>admin\<close> or its \<^verbatim>\<open>is_admin\<close> flag is set, and refuses with 403
  otherwise. The document it is given is the directory record that \<open>get_current_user\<close>
  found for the subject of the token, so for a verified token whose subject has a record
  the request is admitted exactly when the subject is \<^verbatim>\<open>admin\<close> or the record has
  the flag set, the flag not being needed for \<^verbatim>\<open>admin\<close>. When the subject has no
  record or the directory cannot be reached, the request fails with 401 for every
  subject, \<^verbatim>\<open>admin\<close> included.
\<close>

theorem admin_check_iff:
  "((\<exists>u. get_current_admin_user current_user = Inr u) \<longleftrightarrow>
      dict_get current_user ''username'' JNull = JStr ''admin''
      \<or> truthy (dict_get current_user ''is_admin'' (JBool False)))
   \<and> ((\<nexists>u. get_current_admin_user current_user = Inr u) \<longrightarrow>
        get_current_admin_user current_user = Inl forbidden)
   \<and> (verify_token h clk tok = Inr payload \<and> sub payload = Some name
        \<and> get_user_by_username db name = Inr (Some user) \<longrightarrow>
        ((\<exists>u. depends_get_current_admin_user h clk db tok = Inr u) \<longleftrightarrow>
           name = ''admin'' \<or> truthy (dict_get user ''is_admin'' (JBool False))))
   \<and> (verify_token h clk tok = Inr payload \<and> sub payload = Some name
        \<and> (get_user_by_username db name = Inr None \<or> db = Unreachable) \<longrightarrow>
        depends_get_current_admin_user h clk db tok = Inl credentials_exception)"
proof (intro conjI impI)
  show "(\<exists>u. get_current_admin_user current_user = Inr u) \<longleftrightarrow>
      dict_get current_user ''username'' JNull = JStr ''admin''
      \<or> truthy (dict_get current_user ''is_admin'' (JBool False))"
    by (auto simp: get_current_admin_user_def)
next
  assume "\<nexists>u. get_current_admin_user current_user = Inr u"
  then show "get_current_admin_user current_user = Inl forbidden"
    by (auto simp: get_current_admin_user_def split: if_splits)
next
  assume a: "verify_token h clk tok = Inr payload \<and> sub payload = Some name
        \<and> get_user_by_username db name = Inr (Some user)"
  let ?safe = "filter (\<lambda>(k, v). k \<noteq> ''password'') user"
  from a have n: "map_of user ''username'' = Some (JStr name)"
    using get_user_by_username_found by blast
  have u: "dict_get ?safe ''username'' JNull = JStr name"
    using n by (simp add: dict_get_def map_of_filter_other)
  have f: "dict_get ?safe ''is_admin'' (JBool False) = dict_get user ''is_admin'' (JBool False)"
    by (simp add: dict_get_def map_of_filter_other)
  from a have "depends_get_current_admin_user h clk db tok = get_current_admin_user ?safe"
    by (simp add: depends_get_current_admin_user_def get_current_user_def)
  then show "(\<exists>u. depends_get_current_admin_user h clk db tok = Inr u) \<longleftrightarrow>
           name = ''admin'' \<or> truthy (dict_get user ''is_admin'' (JBool False))"
    using u f by (auto simp: get_current_admin_user_def)
next
  assume a: "verify_token h clk tok = Inr payload \<and> sub payload = Some name
        \<and> (get_user_by_username db name = Inr None \<or> db = Unreachable)"
  then show "depends_get_current_admin_user h clk db tok = Inl credentials_exception"
    by (auto simp: depends_get_current_admin_user_def get_current_user_def
        get_user_by_username_def reraise_http_def)
qed

theorem admin_check_iff_witness:
  "get_current_admin_user [(''username'', JStr ''admin''), (''is_admin'', JBool False)]
     = Inr [(''username'', JStr ''admin''), (''is_admin'', JBool False)]
   \<and> get_current_admin_user [(''username'', JStr ''alice''), (''is_admin'', JBool False)]
     = Inl forbidden
   \<and> (\<exists>u. depends_get_current_admin_user
          \<lparr>secret_key = ''s3cret'', algorithm = ''HS256'', access_token_expire_minutes = 30\<rparr>
          \<lparr>utcnow = 1000500000, utcoffset = 0\<rparr>
          (Database [[(''username'', JStr ''admin''), (''password'', JHash ''salt'' ''pw''),
                      (''is_admin'', JBool False)]])
          (JWS ''HS256'' ''s3cret''
             \<lparr>sub = Some ''admin'', exp = Some 2800, iat = Some 1000, extra = []\<rparr>) = Inr u)
   \<and> depends_get_current_admin_user
          \<lparr>secret_key = ''s3cret'', algorithm = ''HS256'', access_token_expire_minutes = 30\<rparr>
          \<lparr>utcnow = 1000500000, utcoffset = 0\<rparr>
          (Database [[(''username'', JStr ''alice''), (''password'', JHash ''salt'' ''pw''),
                      (''is_admin'', JBool True)]])
          (JWS ''HS256'' ''s3cret''
             \<lparr>sub = Some ''bob'', exp = Some 2800, iat = Some 1000, extra = []\<rparr>)
     = Inl credentials_exception"
proof -
  let ?h = "\<lparr>secret_key = ''s3cret'', algorithm = ''HS256'', access_token_expire_minutes = 30\<rparr>"
  let ?clk = "\<lparr>utcnow = 1000500000, utcoffset = 0\<rparr>"
  let ?admin = "[(''username'', JStr ''admin''), (''password'', JHash ''salt'' ''pw''),
                 (''is_admin'', JBool False)]"
  let ?alice = "[(''username'', JStr ''alice''), (''password'', JHash ''salt'' ''pw''),
                 (''is_admin'', JBool True)]"
  let ?pa = "\<lparr>sub = Some ''admin'', exp = Some 2800, iat = Some 1000, extra = []\<rparr>"
  let ?pb = "\<lparr>sub = Some ''bob'', exp = Some 2800, iat = Some 1000, extra = []\<rparr>"
  let ?cu = "[(''username'', JStr ''admin''), (''is_admin'', JBool False)]"
  let ?cv = "[(''username'', JStr ''alice''), (''is_admin'', JBool False)]"
  have va: "verify_token ?h ?clk (JWS ''HS256'' ''s3cret'' ?pa) = Inr ?pa"
    by (simp add: verify_token_def jwt_decode_def validate_claims_def hmac_algorithms_def
        timegm_def fromtimestamp_def)
  have vb: "verify_token ?h ?clk (JWS ''HS256'' ''s3cret'' ?pb) = Inr ?pb"
    by (simp add: verify_token_def jwt_decode_def validate_claims_def hmac_algorithms_def
        timegm_def fromtimestamp_def)
  have ga: "get_user_by_username (Database [?admin]) ''admin'' = Inr (Some ?admin)"
    by (simp add: get_user_by_username_def)
  have gb: "get_user_by_username (Database [?alice]) ''bob'' = Inr None"
    by (simp add: get_user_by_username_def)
  have c1: "dict_get ?cu ''username'' JNull = JStr ''admin''"
    by (simp add: dict_get_def)
  have c2: "\<not> (dict_get ?cv ''username'' JNull = JStr ''admin''
              \<or> truthy (dict_get ?cv ''is_admin'' (JBool False)))"
    by (simp add: dict_get_def)
  from admin_check_iff [of ?cu ?h ?clk "JWS ''HS256'' ''s3cret'' ?pa" ?pa "''admin''"
      "Database [?admin]" ?admin] c1 va ga
  have "(\<exists>u. get_current_admin_user ?cu = Inr u)
        \<and> (\<exists>u. depends_get_current_admin_user ?h ?clk (Database [?admin])
                 (JWS ''HS256'' ''s3cret'' ?pa) = Inr u)"
    by simp
  moreover have "get_current_admin_user ?cu = Inr u \<Longrightarrow> u = ?cu" for u
    by (simp add: get_current_admin_user_def split: if_splits)
  moreover from admin_check_iff [of ?cv ?h ?clk "JWS ''HS256'' ''s3cret'' ?pb" ?pb "''bob''"
      "Database [?alice]" ?alice] c2 vb gb
  have "get_current_admin_user ?cv = Inl forbidden
        \<and> depends_get_current_admin_user ?h ?clk (Database [?alice])
             (JWS ''HS256'' ''s3cret'' ?pb) = Inl credentials_exception"
    by simp
  ultimately show ?thesis by blast
qed

text \<open>
  The claim C6 as the spec has it fails in its example: for the identity \<^verbatim>\<open>admin\<close>
  with no directory record the admin dependency does not succeed, it fails with 401.
\<close>

theorem admin_without_record_counterexample:
  "depends_get_current_admin_user
     \<lparr>secret_key = ''s3cret'', algorithm = ''HS256'', access_token_expire_minutes = 30\<rparr>
     \<lparr>utcnow = 1000500000, utcoffset = 0\<rparr>
     (Database [])
     (JWS ''HS256'' ''s3cret''
        \<lparr>sub = Some ''admin'', exp = Some 2800, iat = Some 1000, extra = []\<rparr>)
   = Inl credentials_exception"
  by (simp add: depends_get_current_admin_user_def get_current_user_def verify_token_def
      jwt_decode_def validate_claims_def hmac_algorithms_def timegm_def fromtimestamp_def
      get_user_by_username_def)

text \<open>
  C10. A token whose subject has no record in the directory never establishes an
  identity: \<open>get_current_user\<close> fails on it with status 401, whether \<open>verify_token\<close>
  rejects the token or accepts it. On a token that \<open>verify_token\<close> accepts, the correctly
  signed and unexpired one, the failure is the credentials error raised after the lookup.
\<close>

theorem get_current_user_unknown_subject:
  assumes "sub payload = Some username"
    and "get_user_by_username db username = Inr None"
  shows "(\<exists>x. get_current_user h clk db (JWS alg k payload) = Inl (HTTPException x)
              \<and> status_code x = 401)
         \<and> (verify_token h clk (JWS alg k payload) = Inr payload \<longrightarrow>
              get_current_user h clk db (JWS alg k payload)
              = Inl (HTTPException \<lparr>status_code = 401, detail = ''Could not validate credentials'',
                                    headers = [(''WWW-Authenticate'', ''Bearer'')]\<rparr>))"
proof (cases "verify_token h clk (JWS alg k payload)")
  case (Inl e)
  then have "e = invalid_credentials \<or> e = token_expired" by (rule verify_token_Inl)
  with Inl show ?thesis
    by (auto simp: get_current_user_def reraise_http_def invalid_credentials_def
        token_expired_def)
next
  case (Inr p)
  from verify_token_Inr [OF Inr] have "p = payload" by simp
  with Inr assms show ?thesis
    by (simp add: get_current_user_def credentials_exception_def)
qed

theorem get_current_user_unknown_subject_witness:
  "verify_token
     \<lparr>secret_key = ''s3cret'', algorithm = ''HS256'', access_token_expire_minutes = 30\<rparr>
     \<lparr>utcnow = 1000500000, utcoffset = 0\<rparr>
     (JWS ''HS256'' ''s3cret''
        \<lparr>sub = Some ''bob'', exp = Some 2800, iat = Some 1000, extra = []\<rparr>)
   = Inr \<lparr>sub = Some ''bob'', exp = Some 2800, iat = Some 1000, extra = []\<rparr>
   \<and> get_current_user
     \<lparr>secret_key = ''s3cret'', algorithm = ''HS256'', access_token_expire_minutes = 30\<rparr>
     \<lparr>utcnow = 1000500000, utcoffset = 0\<rparr>
     (Database [[(''username'', JStr ''alice''), (''password'', JHash ''salt'' ''pw'')]])
     (JWS ''HS256'' ''s3cret''
        \<lparr>sub = Some ''bob'', exp = Some 2800, iat = Some 1000, extra = []\<rparr>)
   = Inl (HTTPException \<lparr>status_code = 401, detail = ''Could not validate credentials'',
                         headers = [(''WWW-Authenticate'', ''Bearer'')]\<rparr>)
   \<and> (\<exists>x. get_current_user
     \<lparr>secret_key = ''s3cret'', algorithm = ''HS256'', access_token_expire_minutes = 30\<rparr>
     \<lparr>utcnow = 1000500000, utcoffset = - 18000\<rparr>
     (Database [[(''username'', JStr ''alice''), (''password'', JHash ''salt'' ''pw'')]])
     (JWS ''HS256'' ''s3cret''
        \<lparr>sub = Some ''bob'', exp = Some 2800, iat = Some 1000, extra = []\<rparr>)
     = Inl (HTTPException x) \<and> status_code x = 401)"
proof -
  let ?h = "\<lparr>secret_key = ''s3cret'', algorithm = ''HS256'', access_token_expire_minutes = 30\<rparr>"
  let ?clk = "\<lparr>utcnow = 1000500000, utcoffset = 0\<rparr>"
  let ?west = "\<lparr>utcnow = 1000500000, utcoffset = - 18000\<rparr>"
  let ?db = "Database [[(''username'', JStr ''alice''), (''password'', JHash ''salt'' ''pw'')]]"
  let ?p = "\<lparr>sub = Some ''bob'', exp = Some 2800, iat = Some 1000, extra = []\<rparr>"
  have 1: "sub ?p = Some ''bob''" by simp
  have 2: "get_user_by_username ?db ''bob'' = Inr None" by (simp add: get_user_by_username_def)
  have v: "verify_token ?h ?clk (JWS ''HS256'' ''s3cret'' ?p) = Inr ?p"
    by (simp add: verify_token_def jwt_decode_def validate_claims_def hmac_algorithms_def
        timegm_def fromtimestamp_def)
  from get_current_user_unknown_subject [OF 1 2, of ?h ?clk "''HS256''" "''s3cret''"] v
  have "get_current_user ?h ?clk ?db (JWS ''HS256'' ''s3cret'' ?p)
        = Inl (HTTPException \<lparr>status_code = 401, detail = ''Could not validate credentials'',
                              headers = [(''WWW-Authenticate'', ''Bearer'')]\<rparr>)"
    by blast
  moreover
  from get_current_user_unknown_subject [OF 1 2, of ?h ?west "''HS256''" "''s3cret''"]
  have "\<exists>x. get_current_user ?h ?west ?db (JWS ''HS256'' ''s3cret'' ?p) = Inl (HTTPException x)
            \<and> status_code x = 401"
    by blast
  ultimately show ?thesis using v by blast
qed

section \<open>Login and the Credential Hasher\<close>

text \<open>
  C7. A failed login says the same whether the username exists: with a stored password
  hash against which the verification of the given password does not return true, and
  with a username that has no record, \<open>login\<close> fails with the one response 401
  \<^verbatim>\<open>Incorrect username or password\<close>, whatever the hashing library does.
\<close>

theorem login_failure_indistinguishable:
  assumes "get_user_by_username db known = Inr (Some user)"
    and "map_of user ''password'' = Some hashed"
    and "verify_password pwd_context wrong hashed \<noteq> Inr True"
    and "get_user_by_username db unknown = Inr None"
  shows "login pwd_context h clk db known wrong = login pwd_context h clk db unknown password
         \<and> login pwd_context h clk db known wrong
           = Inl (HTTPException \<lparr>status_code = 401, detail = ''Incorrect username or password'',
                                 headers = [(''WWW-Authenticate'', ''Bearer'')]\<rparr>)"
proof -
  from assms(2) have "user \<noteq> []" by auto
  with assms(1-3) have "authenticate_user pwd_context db known wrong = None"
    by (cases "verify_password pwd_context wrong hashed")
       (auto simp: authenticate_user_def getitem_def)
  moreover from assms(4) have "authenticate_user pwd_context db unknown password = None"
    by (simp add: authenticate_user_def)
  ultimately show ?thesis by (simp add: login_def incorrect_login_def)
qed

theorem login_failure_indistinguishable_witness:
  "login bcrypt_context
     \<lparr>secret_key = ''s3cret'', algorithm = ''HS256'', access_token_expire_minutes = 30\<rparr>
     \<lparr>utcnow = 1000500000, utcoffset = 0\<rparr>
     (Database [[(''username'', JStr ''alice''), (''password'', JHash ''salt'' ''correct-horse'')]])
     ''alice'' ''battery-staple''
   = login bcrypt_context
     \<lparr>secret_key = ''s3cret'', algorithm = ''HS256'', access_token_expire_minutes = 30\<rparr>
     \<lparr>utcnow = 1000500000, utcoffset = 0\<rparr>
     (Database [[(''username'', JStr ''alice''), (''password'', JHash ''salt'' ''correct-horse'')]])
     ''mallory'' ''battery-staple''
   \<and> login bcrypt_context
     \<lparr>secret_key = ''s3cret'', algorithm = ''HS256'', access_token_expire_minutes = 30\<rparr>
     \<lparr>utcnow = 1000500000, utcoffset = 0\<rparr>
     (Database [[(''username'', JStr ''alice''), (''password'', JHash ''salt'' ''correct-horse'')]])
     ''alice'' ''battery-staple''
   = Inl (HTTPException \<lparr>status_code = 401, detail = ''Incorrect username or password'',
                         headers = [(''WWW-Authenticate'', ''Bearer'')]\<rparr>)"
proof -
  let ?user = "[(''username'', JStr ''alice''), (''password'', JHash ''salt'' ''correct-horse'')]"
  have 1: "get_user_by_username (Database [?user]) ''alice'' = Inr (Some ?user)"
    by (simp add: get_user_by_username_def)
  have 2: "map_of ?user ''password'' = Some (JHash ''salt'' ''correct-horse'')" by simp
  have 3: "verify_password bcrypt_context ''battery-staple'' (JHash ''salt'' ''correct-horse'')
           \<noteq> Inr True"
    by (simp add: verify_password_def bcrypt_context_short del: bcrypt_context.simps(2))
  have 4: "get_user_by_username (Database [?user]) ''mallory'' = Inr None"
    by (simp add: get_user_by_username_def)
  show ?thesis by (rule login_failure_indistinguishable [OF 1 2 3 4])
qed

text \<open>
  C9, as amended. \<open>verify_password\<close> has no handler of its own: it returns what the
  verification of the hashing library returns, false when the library finds a mismatch,
  and it raises whenever the library raises. Its caller \<open>authenticate_user\<close> catches
  every exception and takes every result other than true for a failed authentication: it
  returns a user only when the verification against the stored hash has returned true.
\<close>

theorem verify_password_no_handler:
  "(pwd_context plain hashed = Inr b \<longrightarrow> verify_password pwd_context plain hashed = Inr b)
   \<and> (pwd_context plain hashed = Inl e \<longrightarrow> verify_password pwd_context plain hashed = Inl e)
   \<and> (get_user_by_username db username = Inr (Some user)
        \<and> map_of user ''password'' = Some hashed
        \<and> pwd_context plain hashed \<noteq> Inr True \<longrightarrow>
        authenticate_user pwd_context db username plain = None)
   \<and> (authenticate_user pwd_context db username plain = Some user \<longrightarrow>
        (\<exists>stored. map_of user ''password'' = Some stored
                   \<and> verify_password pwd_context plain stored = Inr True))"
proof (intro conjI impI)
  assume "authenticate_user pwd_context db username plain = Some user"
  then show "\<exists>stored. map_of user ''password'' = Some stored
                   \<and> verify_password pwd_context plain stored = Inr True"
    unfolding authenticate_user_def getitem_def
    by (auto split: sum.splits option.splits if_splits)
next
  assume "pwd_context plain hashed = Inr b"
  then show "verify_password pwd_context plain hashed = Inr b"
    by (simp add: verify_password_def)
next
  assume "pwd_context plain hashed = Inl e"
  then show "verify_password pwd_context plain hashed = Inl e"
    by (simp add: verify_password_def)
next
  assume a: "get_user_by_username db username = Inr (Some user)
        \<and> map_of user ''password'' = Some hashed
        \<and> pwd_context plain hashed \<noteq> Inr True"
  then have "user \<noteq> []" by auto
  with a show "authenticate_user pwd_context db username plain = None"
    by (cases "pwd_context plain hashed")
       (auto simp: authenticate_user_def getitem_def verify_password_def)
qed

theorem verify_password_no_handler_witness:
  "verify_password bcrypt_context ''battery-staple'' (JHash ''salt'' ''correct-horse'') = Inr False
   \<and> verify_password bcrypt_context ''battery-staple'' (JStr ''not-a-hash'')
     = Inl (PyError ''ValueError'')
   \<and> authenticate_user bcrypt_context
       (Database [[(''username'', JStr ''alice''), (''password'', JStr ''not-a-hash'')]])
       ''alice'' ''battery-staple'' = None"
proof -
  let ?user = "[(''username'', JStr ''alice''), (''password'', JStr ''not-a-hash'')]"
  have 1: "bcrypt_context ''battery-staple'' (JHash ''salt'' ''correct-horse'') = Inr False"
    by (simp add: bcrypt_context_short del: bcrypt_context.simps(2))
  have 2: "bcrypt_context ''battery-staple'' (JStr ''not-a-hash'') = Inl (PyError ''ValueError'')"
    by simp
  have 3: "get_user_by_username (Database [?user]) ''alice'' = Inr (Some ?user)
           \<and> map_of ?user ''password'' = Some (JStr ''not-a-hash'')
           \<and> bcrypt_context ''battery-staple'' (JStr ''not-a-hash'') \<noteq> Inr True"
    by (simp add: get_user_by_username_def)
  from verify_password_no_handler [of bcrypt_context "''battery-staple''"
      "JHash ''salt'' ''correct-horse''" False] 1
  have "verify_password bcrypt_context ''battery-staple'' (JHash ''salt'' ''correct-horse'')
        = Inr False"
    by blast
  moreover
  from verify_password_no_handler [of bcrypt_context "''battery-staple''"
      "JStr ''not-a-hash''" False "PyError ''ValueError''" "Database [?user]" "''alice''" ?user]
    2 3
  have "verify_password bcrypt_context ''battery-staple'' (JStr ''not-a-hash'')
          = Inl (PyError ''ValueError'')
        \<and> authenticate_user bcrypt_context (Database [?user]) ''alice'' ''battery-staple'' = None"
    by blast
  ultimately show ?thesis by blast
qed

text \<open>
  The claim C9 as the spec has it fails for a merely wrong password: one that contains a
  NUL byte makes the bcrypt context raise, and \<open>verify_password\<close> with it, instead of
  returning false.
\<close>

theorem verify_password_raises_counterexample:
  "verify_password bcrypt_context [CHR ''w'', CHR ''r'', CHR ''o'', CHR ''n'', CHR ''g'', CHR 0x00]
     (JHash ''salt'' ''correct-horse'')
   = Inl (PyError ''ValueError'')
   \<and> verify_password bcrypt_context [CHR ''w'', CHR ''r'', CHR ''o'', CHR ''n'', CHR ''g'', CHR 0x00]
     (JHash ''salt'' ''correct-horse'')
   \<noteq> Inr False"
  by (simp add: verify_password_def bcrypt_context_nul del: bcrypt_context.simps(2))

section \<open>User records without the password hash\<close>

text \<open>
  C8, as amended. The three operations that hand a user record to the client of the
  service leave the stored hash out: the document that \<open>get_current_user\<close> returns and
  every document that \<open>get_all_users\<close> returns have no \<^verbatim>\<open>password\<close> key, and the
  response of \<open>get_user_by_username_endpoint\<close> is built by the response model from a
  document without that key and has no such field.
\<close>

theorem password_never_returned:
  "(get_current_user h clk db tok = Inr current_user \<longrightarrow>
      ''password'' \<notin> fst ` set current_user)
   \<and> (get_all_users db = Inr users \<longrightarrow>
      list_all (\<lambda>user. ''password'' \<notin> fst ` set user) users)
   \<and> (get_user_by_username_endpoint UserResponse_init db username = Inr r \<longrightarrow>
      ''password'' \<notin> fst ` set (model_dump r)
      \<and> (\<exists>user_safe. ''password'' \<notin> fst ` set user_safe
                      \<and> UserResponse_init user_safe = Inr r))"
proof (intro conjI impI)
  assume "get_current_user h clk db tok = Inr current_user"
  then show "''password'' \<notin> fst ` set current_user"
    unfolding get_current_user_def
    by (auto split: sum.splits option.splits)
next
  assume "get_all_users db = Inr users"
  then show "list_all (\<lambda>user. ''password'' \<notin> fst ` set user) users"
    unfolding get_all_users_def
    by (auto simp: list_all_iff split: database.splits)
next
  show "''password'' \<notin> fst ` set (model_dump r)"
    by (simp add: model_dump_def)
next
  assume "get_user_by_username_endpoint UserResponse_init db username = Inr r"
  then obtain user where
    "UserResponse_init (filter (\<lambda>(k, v). k \<noteq> ''password'') user) = Inr r"
    unfolding get_user_by_username_endpoint_def
    by (auto simp: Let_def split: sum.splits option.splits if_splits)
  moreover have "''password'' \<notin> fst ` set (filter (\<lambda>(k, v). k \<noteq> ''password'') user)"
    by auto
  ultimately show "\<exists>user_safe. ''password'' \<notin> fst ` set user_safe
                      \<and> UserResponse_init user_safe = Inr r"
    by blast
qed

theorem password_never_returned_witness:
  "get_current_user
     \<lparr>secret_key = ''s3cret'', algorithm = ''HS256'', access_token_expire_minutes = 30\<rparr>
     \<lparr>utcnow = 1000500000, utcoffset = 0\<rparr>
     (Database [[(''username'', JStr ''alice''), (''password'', JHash ''salt'' ''pw''),
                 (''is_admin'', JBool False)]])
     (JWS ''HS256'' ''s3cret''
        \<lparr>sub = Some ''alice'', exp = Some 2800, iat = Some 1000, extra = []\<rparr>)
   = Inr [(''username'', JStr ''alice''), (''is_admin'', JBool False)]
   \<and> ''password'' \<notin> fst ` set [(''username'', JStr ''alice''), (''is_admin'', JBool False)]
   \<and> get_all_users
       (Database [[(''username'', JStr ''alice''), (''password'', JHash ''salt'' ''pw''),
                   (''is_admin'', JBool False)]])
     = Inr [[(''username'', JStr ''alice''), (''is_admin'', JBool False)]]
   \<and> list_all (\<lambda>user. ''password'' \<notin> fst ` set user)
        [[(''username'', JStr ''alice''), (''is_admin'', JBool False)]]
   \<and> get_user_by_username_endpoint
        (\<lambda>kwargs. case map_of kwargs ''username'' of
                     Some (JStr u) \<Rightarrow>
                       Inr \<lparr>ur_username = u, ur_created_at = None, ur_last_login = None,
                            ur_is_active = True, ur_is_admin = False\<rparr>
                   | _ \<Rightarrow> Inl (PyError ''ValidationError''))
        (Database [[(''username'', JStr ''alice''), (''password'', JHash ''salt'' ''pw''),
                    (''is_admin'', JBool False)]]) ''alice''
     = Inr \<lparr>ur_username = ''alice'', ur_created_at = None, ur_last_login = None,
            ur_is_active = True, ur_is_admin = False\<rparr>
   \<and> ''password'' \<notin> fst ` set (model_dump
         \<lparr>ur_username = ''alice'', ur_created_at = None, ur_last_login = None,
          ur_is_active = True, ur_is_admin = False\<rparr>)"
proof -
  let ?h = "\<lparr>secret_key = ''s3cret'', algorithm = ''HS256'', access_token_expire_minutes = 30\<rparr>"
  let ?clk = "\<lparr>utcnow = 1000500000, utcoffset = 0\<rparr>"
  let ?db = "Database [[(''username'', JStr ''alice''), (''password'', JHash ''salt'' ''pw''),
                        (''is_admin'', JBool False)]]"
  let ?tok = "JWS ''HS256'' ''s3cret''
                \<lparr>sub = Some ''alice'', exp = Some 2800, iat = Some 1000, extra = []\<rparr>"
  let ?safe = "[(''username'', JStr ''alice''), (''is_admin'', JBool False)]"
  let ?init = "\<lambda>kwargs. case map_of kwargs ''username'' of
                     Some (JStr u) \<Rightarrow>
                       Inr \<lparr>ur_username = u, ur_created_at = None, ur_last_login = None,
                            ur_is_active = True, ur_is_admin = False\<rparr>
                   | _ \<Rightarrow> Inl (PyError ''ValidationError'')"
  let ?r = "\<lparr>ur_username = ''alice'', ur_created_at = None, ur_last_login = None,
             ur_is_active = True, ur_is_admin = False\<rparr>"
  have 1: "get_current_user ?h ?clk ?db ?tok = Inr ?safe"
    by (simp add: get_current_user_def verify_token_def jwt_decode_def validate_claims_def
        hmac_algorithms_def timegm_def fromtimestamp_def get_user_by_username_def)
  have 2: "get_all_users ?db = Inr [?safe]"
    by (simp add: get_all_users_def)
  have 3: "get_user_by_username_endpoint ?init ?db ''alice'' = Inr ?r"
    by (simp add: get_user_by_username_endpoint_def get_user_by_username_def)
  from password_never_returned [of ?h ?clk ?db ?tok ?safe "[?safe]" ?init "''alice''" ?r] 1 2 3
  show ?thesis by blast
qed

text \<open>
  The claim C8 as the spec has it, for every operation that returns a user record, fails
  for \<open>authenticate_user\<close> and for \<open>get_user_by_username\<close>: the record they return
  to the login route and to the other routes has the stored hash in it.
\<close>

theorem authenticate_user_returns_hash_counterexample:
  "authenticate_user bcrypt_context
     (Database [[(''username'', JStr ''alice''), (''password'', JHash ''salt'' ''correct-horse'')]])
     ''alice'' ''correct-horse''
   = Some [(''username'', JStr ''alice''), (''password'', JHash ''salt'' ''correct-horse'')]
   \<and> get_user_by_username
     (Database [[(''username'', JStr ''alice''), (''password'', JHash ''salt'' ''correct-horse'')]])
     ''alice''
   = Inr (Some [(''username'', JStr ''alice''), (''password'', JHash ''salt'' ''correct-horse'')])
   \<and> map_of [(''username'', JStr ''alice''), (''password'', JHash ''salt'' ''correct-horse'')]
        ''password''
     = Some (JHash ''salt'' ''correct-horse'')"
  by (simp add: authenticate_user_def get_user_by_username_def getitem_def verify_password_def
      bcrypt_context_short del: bcrypt_context.simps(2))

end
